theory Spec2Isabelle
  imports Main
begin

section \<open>Python text\<close>

text \<open>
  The program is \<^verbatim>\<open>SageDialogEnhancev6.py\<close>. Its strings are Python \<^verbatim>\<open>str\<close> values.
  They are modelled as \<^typ>\<open>string\<close>, a \<^typ>\<open>char\<close> standing for the code point of the
  same number, so the model covers the texts whose code points are below 256. The
  library methods the program calls on strings are written out for these code points.
\<close>

text \<open>\<^verbatim>\<open>str.isspace\<close> on one character: the white space among the first 256 code points.\<close>

definition isspace :: "char \<Rightarrow> bool" where
  "isspace c = (of_char c \<in> {9, 10, 11, 12, 13, 28, 29, 30, 31, 32, 133, 160 :: nat})"

text \<open>\<^verbatim>\<open>s.strip()\<close>: white space removed at both ends.\<close>

definition strip :: "string \<Rightarrow> string" where
  "strip s = rev (dropWhile isspace (rev (dropWhile isspace s)))"

text \<open>
  \<^verbatim>\<open>s.splitlines()\<close>: the line boundaries are LF, VT, FF, CR, CR LF, FS, GS, RS and NEL;
  the boundaries are not kept, and no empty line is reported after the last boundary.
\<close>

definition is_linebreak :: "char \<Rightarrow> bool" where
  "is_linebreak c = (of_char c \<in> {10, 11, 12, 13, 28, 29, 30, 133 :: nat})"

fun splitlines_from :: "string \<Rightarrow> string \<Rightarrow> string list" where
  "splitlines_from cur [] = (if cur = [] then [] else [cur])"
| "splitlines_from cur [c] =
     (if is_linebreak c then [cur] else [cur @ [c]])"
| "splitlines_from cur (c # d # cs) =
     (if c = CHR 0x0D \<and> d = CHR 0x0A then cur # splitlines_from [] cs
      else if is_linebreak c then cur # splitlines_from [] (d # cs)
      else splitlines_from (cur @ [c]) (d # cs))"

definition splitlines :: "string \<Rightarrow> string list" where
  "splitlines s = splitlines_from [] s"

text \<open>
  \<^verbatim>\<open>s.isdigit()\<close>: the string is not empty and every character is a digit. Below 256 the
  digits are \<^verbatim>\<open>0\<close> to \<^verbatim>\<open>9\<close> and the superscripts two, three and one (code points
  178, 179 and 185); only the former are decimal characters.
\<close>

definition isdecimal_char :: "char \<Rightarrow> bool" where
  "isdecimal_char c = (48 \<le> (of_char c :: nat) \<and> (of_char c :: nat) \<le> 57)"

definition isdigit_char :: "char \<Rightarrow> bool" where
  "isdigit_char c = (isdecimal_char c \<or> of_char c \<in> {178, 179, 185 :: nat})"

definition isdigit :: "string \<Rightarrow> bool" where
  "isdigit s = (s \<noteq> [] \<and> list_all isdigit_char s)"

text \<open>Exceptions carry their message, \<^verbatim>\<open>str(e)\<close>; all are of class \<^verbatim>\<open>Exception\<close>.\<close>

datatype exn = Exception string

fun str_exn :: "exn \<Rightarrow> string" where
  "str_exn (Exception msg) = msg"

text \<open>
  \<^verbatim>\<open>int(s)\<close>, for the strings the program passes to it: those for which
  \<^verbatim>\<open>s.isdigit()\<close> holds. It returns the number when every character is a decimal
  character and raises \<^verbatim>\<open>ValueError\<close> otherwise. (The interpreter's optional limit
  on the number of digits of such a conversion is not modelled.)
\<close>

definition digit_val :: "char \<Rightarrow> nat" where
  "digit_val c = of_char c - 48"

definition int_of_digits :: "string \<Rightarrow> nat" where
  "int_of_digits s = foldl (\<lambda>acc c. 10 * acc + digit_val c) 0 s"

definition py_int :: "string \<Rightarrow> exn + nat" where
  "py_int s =
     (if s \<noteq> [] \<and> list_all isdecimal_char s then Inr (int_of_digits s)
      else Inl (Exception (''invalid literal for int() with base 10: '' @ [CHR 0x27] @ s @ [CHR 0x27])))"

text \<open>\<^verbatim>\<open>str(n)\<close> for an integer: its decimal digits, with a sign when negative.\<close>

definition digit_char :: "nat \<Rightarrow> char" where
  "digit_char d = ''0123456789'' ! d"

function str_nat :: "nat \<Rightarrow> string" where
  "str_nat n = (if n < 10 then [digit_char n] else str_nat (n div 10) @ [digit_char (n mod 10)])"
  by pat_completeness auto
termination
  by (relation "measure (\<lambda>n. n)") auto

declare str_nat.simps [simp del]

definition str_int :: "int \<Rightarrow> string" where
  "str_int k = (if k < 0 then CHR ''-'' # str_nat (nat (- k)) else str_nat (nat k))"

text \<open>\<^verbatim>\<open>s.startswith(p)\<close> and \<^verbatim>\<open>sub in s\<close>.\<close>

fun startswith :: "string \<Rightarrow> string \<Rightarrow> bool" where
  "startswith s [] = True"
| "startswith [] (p # ps) = False"
| "startswith (c # cs) (p # ps) = (c = p \<and> startswith cs ps)"

fun contains :: "string \<Rightarrow> string \<Rightarrow> bool" where
  "contains [] sub = (sub = [])"
| "contains (c # cs) sub = (startswith (c # cs) sub \<or> contains cs sub)"

text \<open>\<^verbatim>\<open>sep.join(xs)\<close> and \<^verbatim>\<open>s.split(c)\<close> for a separator of one character.\<close>

fun join :: "string \<Rightarrow> string list \<Rightarrow> string" where
  "join sep [] = []"
| "join sep [x] = x"
| "join sep (x # y # ys) = x @ sep @ join sep (y # ys)"

fun split :: "char \<Rightarrow> string \<Rightarrow> string list" where
  "split c [] = [[]]"
| "split c (x # xs) =
     (if x = c then [] # split c xs
      else (case split c xs of [] \<Rightarrow> [[x]] | w # ws \<Rightarrow> (x # w) # ws))"

section \<open>Configuration\<close>

text \<open>
  An equalizer band and the speechnorm parameters are dicts of strings with the keys
  \<^verbatim>\<open>f, t, w, g\<close> and \<^verbatim>\<open>e, r, l\<close>. Every such dict is made from
  \<^verbatim>\<open>DEFAULT_EQUALIZER_BANDS\<close> or \<^verbatim>\<open>DEFAULT_SPEECHNORM\<close> and only ever rewritten under
  these keys (\<^verbatim>\<open>apply_settings\<close>), so the keys are always present and the dicts are
  modelled as records. The values are the texts of the settings form, unvalidated.
\<close>

record band =
  band_f :: string
  band_t :: string
  band_w :: string
  band_g :: string

record speechnorm =
  sn_e :: string
  sn_r :: string
  sn_l :: string

definition DEFAULT_SUPPORTED_EXTENSIONS :: "string list" where
  "DEFAULT_SUPPORTED_EXTENSIONS = [''.mkv'', ''.mp4'', ''.mov'']"

definition DEFAULT_EQUALIZER_BANDS :: "band list" where
  "DEFAULT_EQUALIZER_BANDS =
     [\<lparr>band_f = ''50'', band_t = ''q'', band_w = ''2'', band_g = ''-12''\<rparr>,
      \<lparr>band_f = ''100'', band_t = ''q'', band_w = ''2'', band_g = ''-10''\<rparr>,
      \<lparr>band_f = ''150'', band_t = ''q'', band_w = ''2'', band_g = ''-6''\<rparr>]"

definition DEFAULT_SPEECHNORM :: speechnorm where
  "DEFAULT_SPEECHNORM = \<lparr>sn_e = ''6.25'', sn_r = ''0.00001'', sn_l = ''1''\<rparr>"

definition DEFAULT_OUTPUT_FOLDER :: string where
  "DEFAULT_OUTPUT_FOLDER = ''processed''"

definition DEFAULT_OUTPUT_SUFFIX :: string where
  "DEFAULT_OUTPUT_SUFFIX = ''_enhanced.mkv''"

definition PROCESSING_DONE_TOKEN :: string where
  "PROCESSING_DONE_TOKEN = ''__PROCESSING_DONE__''"

text \<open>
  The fields of a \<^verbatim>\<open>VideoProcessor\<close>. \<^verbatim>\<open>_stop_event\<close> is the cancellation flag;
  \<^verbatim>\<open>_current_process\<close> is kept as whether a process handle is held.
\<close>

record VideoProcessor =
  supported_extensions :: "string list"
  equalizer_bands :: "band list"
  speechnorm_params :: speechnorm
  output_folder :: string
  output_suffix :: string
  stop_event :: bool
  current_process :: bool

section \<open>The filter chain: \<^verbatim>\<open>VideoProcessor.build_audio_filter\<close>\<close>

definition eq_str :: "band \<Rightarrow> string" where
  "eq_str b = ''equalizer=f='' @ band_f b @ '':t='' @ band_t b @ '':w='' @ band_w b @ '':g='' @ band_g b"

definition sn_str :: "speechnorm \<Rightarrow> string" where
  "sn_str sn = ''speechnorm=e='' @ sn_e sn @ '':r='' @ sn_r sn @ '':l='' @ sn_l sn"

text \<open>The loop over the bands, appending one clause to \<^verbatim>\<open>eqs\<close> in each iteration.\<close>

fun eqs_loop :: "band list \<Rightarrow> string list \<Rightarrow> string list" where
  "eqs_loop [] eqs = eqs"
| "eqs_loop (b # bands) eqs = eqs_loop bands (eqs @ [eq_str b])"

definition build_audio_filter :: "VideoProcessor \<Rightarrow> string" where
  "build_audio_filter p =
     (let eqs = eqs_loop (equalizer_bands p) [];
          sn = speechnorm_params p
      in join '','' (eqs @ [sn_str sn]))"

section \<open>Events and the world outside the program\<close>

text \<open>
  What the program does to the outside is recorded, in order, as a list of events: a
  \<^verbatim>\<open>put\<close> on the log, debug or progress queue, and each call of a subprocess or of the
  file system. A progress item is the pair the program puts, a kind and a value.
\<close>

datatype event =
    Log string
  | Debug string
  | Progress string nat
  | Subprocess_run "string list"
  | Popen "string list"
  | Wait
  | Mkdir string
  | Exists string

text \<open>The contents of the three queues are the projections of the events.\<close>

fun log_queue :: "event list \<Rightarrow> string list" where
  "log_queue [] = []"
| "log_queue (Log s # evs) = s # log_queue evs"
| "log_queue (ev # evs) = log_queue evs"


fun progress_queue :: "event list \<Rightarrow> (string \<times> nat) list" where
  "progress_queue [] = []"
| "progress_queue (Progress k v # evs) = (k, v) # progress_queue evs"
| "progress_queue (ev # evs) = progress_queue evs"

text \<open>The external calls among the events: subprocesses started or waited for.\<close>

fun is_subprocess_call :: "event \<Rightarrow> bool" where
  "is_subprocess_call (Subprocess_run cmd) = True"
| "is_subprocess_call (Popen cmd) = True"
| "is_subprocess_call Wait = True"
| "is_subprocess_call ev = False"

text \<open>
  The functions of \<^verbatim>\<open>pathlib\<close> and \<^verbatim>\<open>os.path\<close> the program calls are parameters of
  the model, on paths as strings: \<^verbatim>\<open>Path(p).name\<close>, \<^verbatim>\<open>Path(p).stem\<close>,
  \<^verbatim>\<open>Path(p).parent\<close>, \<^verbatim>\<open>Path(a) / b\<close> and \<^verbatim>\<open>os.path.basename(p)\<close>.
\<close>

record os_path =
  Path_name :: "string \<Rightarrow> string"
  Path_stem :: "string \<Rightarrow> string"
  Path_parent :: "string \<Rightarrow> string"
  Path_joinpath :: "string \<Rightarrow> string \<Rightarrow> string"
  basename :: "string \<Rightarrow> string"

text \<open>
  An instance for evaluating the model: these functions on a POSIX path that is absolute,
  has no empty, \<^verbatim>\<open>.\<close> or \<^verbatim>\<open>..\<close> component and whose last component is a name with
  an extension, such as \<^verbatim>\<open>/v/a.mkv\<close>.
\<close>

definition posix :: os_path where
  "posix =
     \<lparr>Path_name = (\<lambda>p. last (split (CHR ''/'') p)),
      Path_stem = (\<lambda>p. join ''.'' (butlast (split (CHR ''.'') (last (split (CHR ''/'') p))))),
      Path_parent = (\<lambda>p. join ''/'' (butlast (split (CHR ''/'') p))),
      Path_joinpath = (\<lambda>a b. a @ ''/'' @ b),
      basename = (\<lambda>p. last (split (CHR ''/'') p))\<rparr>"

text \<open>
  The world as one call of \<^verbatim>\<open>process_video\<close> meets it. The cancellation flag is set by
  the other thread (\<^verbatim>\<open>VideoProcessor.stop_processing\<close>) and only ever read here, so the
  world says, at each place the flag is read, whether a stop request has been made by
  then. \<^verbatim>\<open>subprocess.run\<close> (with \<^verbatim>\<open>check=True\<close>) raises or returns the captured
  output; \<^verbatim>\<open>Popen\<close> raises or returns a process, whose output is a finite sequence of
  lines, after which reading ends or raises; the process then exits with a return code.
\<close>

record worker_world =
  stop_at_entry :: bool
  probe :: "exn + string"
  popen_raises :: "exn option"
  stdout_lines :: "(string \<times> bool) list"
  stdout_raises :: "exn option"
  stop_at_exit :: bool
  returncode :: int

text \<open>\<^verbatim>\<open>VideoProcessor.stop_processing\<close>, as far as the processor's fields go.\<close>

definition stop_processing :: "bool \<Rightarrow> VideoProcessor \<Rightarrow> VideoProcessor" where
  "stop_processing requested p = (if requested then p\<lparr>stop_event := True\<rparr> else p)"

section \<open>The prober: \<^verbatim>\<open>VideoProcessor.get_audio_info\<close>\<close>

definition ffprobe_cmd :: "string \<Rightarrow> string list" where
  "ffprobe_cmd input_file =
     [''ffprobe'', ''-v'', ''error'', ''-select_streams'', ''a:0'',
      ''-show_entries'', ''stream=codec_name,bit_rate'',
      ''-of'', ''default=noprint_wrappers=1:nokey=1'', input_file]"

text \<open>The body of the \<^verbatim>\<open>try\<close>: the events it makes, and the exception or the value it ends with.\<close>

definition get_audio_info_try :: "(exn + string) \<Rightarrow> string \<Rightarrow> event list \<times> (exn + string \<times> string)" where
  "get_audio_info_try result input_file =
     (case result of
        Inl e \<Rightarrow> ([Subprocess_run (ffprobe_cmd input_file)], Inl e)
      | Inr stdout \<Rightarrow>
          (let evs = [Subprocess_run (ffprobe_cmd input_file),
                      Debug (''[DEBUG] Audio info: '' @ strip stdout)];
               lines = splitlines (strip stdout);
               codec = (if length lines > 0 then lines ! 0 else ''aac'')
           in if length lines > 1 \<and> isdigit (lines ! 1)
              then (case py_int (lines ! 1) of
                      Inl e \<Rightarrow> (evs, Inl e)
                    | Inr n \<Rightarrow> (evs, Inr (codec, str_nat (n div 1000) @ ''k'')))
              else (evs, Inr (codec, ''192k''))))"

definition get_audio_info :: "(exn + string) \<Rightarrow> string \<Rightarrow> event list \<times> (string \<times> string)" where
  "get_audio_info result input_file =
     (case get_audio_info_try result input_file of
        (evs, Inr info) \<Rightarrow> (evs, info)
      | (evs, Inl e) \<Rightarrow>
          (evs @ [Debug (''[DEBUG] Audio info error: '' @ str_exn e)], (''aac'', ''192k'')))"

section \<open>The worker: \<^verbatim>\<open>VideoProcessor.process_video\<close>\<close>

text \<open>
  \<^verbatim>\<open>process_video\<close> returns \<^verbatim>\<open>True\<close> from one place and \<^verbatim>\<open>False\<close> from four. The
  model keeps which: the stop check on entry, the stop check after the wait, exit code
  zero, another exit code, and the exception handler.
\<close>

datatype worker_return =
    Stop_at_entry
  | Stopped_by_user
  | Success
  | Exit_code_error
  | Crash


text \<open>The names the specification gives to these outcomes.\<close>

datatype TerminalState = Succeeded | Failed | Stopped

fun terminal_state :: "worker_return \<Rightarrow> TerminalState" where
  "terminal_state Stop_at_entry = Stopped"
| "terminal_state Stopped_by_user = Stopped"
| "terminal_state Success = Succeeded"
| "terminal_state Exit_code_error = Failed"
| "terminal_state Crash = Failed"

definition parse_progress :: "string \<Rightarrow> event list" where
  "parse_progress line =
     (if contains line ''out_time_ms='' then [Progress ''file_progress'' 50]
      else if contains line ''progress=end'' then [Progress ''file_progress'' 100]
      else [])"

text \<open>
  The loop over the lines of the process's output. It returns the events, the exception
  that reading raised (if the loop was not left before), and the processor.
\<close>

fun read_stdout :: "(string \<times> bool) list \<Rightarrow> exn option \<Rightarrow> VideoProcessor
    \<Rightarrow> event list \<times> exn option \<times> VideoProcessor" where
  "read_stdout [] raises p = ([], raises, p)"
| "read_stdout ((line, requested) # rest) raises p =
     (let p1 = stop_processing requested p in
      if stop_event p1 then ([], None, p1)
      else
        let line1 = strip line in
        if line1 = [] then read_stdout rest raises p1
        else
          let evs = (if contains line1 ''progress='' \<or> contains line1 ''out_time_ms=''
                     then parse_progress line1 else []) @ [Debug line1];
              (evs', raised, p2) = read_stdout rest raises p1
          in (evs @ evs', raised, p2))"

definition ffmpeg_cmd :: "string \<Rightarrow> string \<Rightarrow> string \<Rightarrow> string \<Rightarrow> string \<Rightarrow> string list" where
  "ffmpeg_cmd input_path codec bitrate audio_filters output_path =
     [''ffmpeg'', ''-y'', ''-i'', input_path,
      ''-c:v'', ''copy'', ''-c:a'', codec, ''-b:a'', bitrate,
      ''-af'', audio_filters,
      ''-progress'', ''pipe:1'',
      output_path]"

text \<open>The body of the \<^verbatim>\<open>try\<close> of \<^verbatim>\<open>process_video\<close>.\<close>

definition process_video_try :: "os_path \<Rightarrow> worker_world \<Rightarrow> VideoProcessor \<Rightarrow> string list \<Rightarrow> string
    \<Rightarrow> event list \<times> (exn + worker_return) \<times> VideoProcessor" where
  "process_video_try L w p cmd output_path =
     (case popen_raises w of
        Some e \<Rightarrow> ([Popen cmd], Inl e, p)
      | None \<Rightarrow>
          (let p1 = p\<lparr>current_process := True\<rparr>;
               (evs, raised, p2) = read_stdout (stdout_lines w) (stdout_raises w) p1
           in case raised of
                Some e \<Rightarrow> (Popen cmd # evs, Inl e, p2)
              | None \<Rightarrow>
                  (let p3 = stop_processing (stop_at_exit w) p2 in
                   if stop_event p3
                   then (Popen cmd # evs @ [Wait, Log ''[STOPPED] Process was stopped by user.''],
                         Inr Stopped_by_user, p3)
                   else if returncode w = 0
                   then (Popen cmd # evs @
                           [Wait, Log (''[SUCCESS] '' @ basename L output_path),
                            Progress ''file_progress'' 100],
                         Inr Success, p3)
                   else (Popen cmd # evs @
                           [Wait, Log (''[FAILED] FFmpeg exited with error code: '' @ str_int (returncode w))],
                         Inr Exit_code_error, p3))))"

definition process_video :: "os_path \<Rightarrow> worker_world \<Rightarrow> VideoProcessor \<Rightarrow> string \<Rightarrow> string
    \<Rightarrow> event list \<times> worker_return \<times> VideoProcessor" where
  "process_video L w p input_path output_path =
     (let p0 = stop_processing (stop_at_entry w) p in
      if stop_event p0 then ([], Stop_at_entry, p0)
      else
        let (evs_probe, (codec, bitrate)) = get_audio_info (probe w) input_path;
            audio_filters = build_audio_filter p0;
            cmd = ffmpeg_cmd input_path codec bitrate audio_filters output_path;
            evs0 = evs_probe @
                   [Log (CHR 0x0A # ''[PROCESSING] '' @ basename L input_path),
                    Debug (''[DEBUG] Command: '' @ join '' '' cmd)]
        in case process_video_try L w p0 cmd output_path of
             (evs, Inr r, p1) \<Rightarrow> (evs0 @ evs, r, p1\<lparr>current_process := False\<rparr>)
           | (evs, Inl e, p1) \<Rightarrow>
               (evs0 @ evs @
                  [Debug (''[DEBUG] Process crash: '' @ str_exn e), Log (''[CRASH] '' @ str_exn e)],
                Crash, p1\<lparr>current_process := False\<rparr>))"

section \<open>The application: settings and start\<close>

text \<open>
  \<^verbatim>\<open>config_vars\<close>, the configuration on the side of the user interface, and the texts of
  the entries of the settings form when \<^verbatim>\<open>apply_settings\<close> reads them (one set of
  entries for each band of \<^verbatim>\<open>config_vars\<close>).
\<close>

record config =
  cfg_supported_extensions :: "string list"
  cfg_equalizer_bands :: "band list"
  cfg_speechnorm :: speechnorm
  cfg_output_folder :: string
  cfg_output_suffix :: string

record settings_form =
  extensions_var :: string
  band_vars :: "band list"
  speechnorm_vars :: speechnorm
  folder_var :: string
  suffix_var :: string

fun apply_bands :: "band list \<Rightarrow> band list \<Rightarrow> band list" where
  "apply_bands (b # bands) (v # vars) = v # apply_bands bands vars"
| "apply_bands bands vars = bands"

definition apply_settings :: "settings_form \<Rightarrow> config \<Rightarrow> config" where
  "apply_settings form cfg =
     cfg\<lparr>cfg_supported_extensions :=
           map strip (filter (\<lambda>e. startswith (strip e) ''.'') (split (CHR '','') (extensions_var form))),
         cfg_equalizer_bands := apply_bands (cfg_equalizer_bands cfg) (band_vars form),
         cfg_speechnorm := speechnorm_vars form,
         cfg_output_folder :=
           (if strip (folder_var form) = [] then DEFAULT_OUTPUT_FOLDER else strip (folder_var form)),
         cfg_output_suffix :=
           (if strip (suffix_var form) = [] then DEFAULT_OUTPUT_SUFFIX else strip (suffix_var form))\<rparr>"

text \<open>
  The fields of \<^verbatim>\<open>VideoProcessorApp\<close> that processing reads. \<^verbatim>\<open>run_processing\<close> runs
  only on the thread \<^verbatim>\<open>start_processing\<close> starts, after \<^verbatim>\<open>self.processor\<close> is set.
\<close>

record VideoProcessorApp =
  file_list :: "string list"
  config_vars :: config
  processor :: VideoProcessor

text \<open>
  The constructor call of \<^verbatim>\<open>start_processing\<close>. The bands and the speechnorm
  parameters are passed as copies (\<^verbatim>\<open>dict(band)\<close>, \<^verbatim>\<open>dict(...)\<close>) and the list of
  extensions is never changed in place, so later changes of \<^verbatim>\<open>config_vars\<close> do not
  reach the fields of the processor: values, as in the model.
\<close>

definition new_VideoProcessor :: "config \<Rightarrow> VideoProcessor" where
  "new_VideoProcessor cfg =
     \<lparr>supported_extensions = cfg_supported_extensions cfg,
      equalizer_bands = cfg_equalizer_bands cfg,
      speechnorm_params = cfg_speechnorm cfg,
      output_folder = cfg_output_folder cfg,
      output_suffix = cfg_output_suffix cfg,
      stop_event = False,
      current_process = False\<rparr>"

text \<open>
  \<^verbatim>\<open>start_processing\<close>, given the form and whether a processing thread is alive. It
  returns the application and whether the thread running \<^verbatim>\<open>run_processing\<close> was started.
\<close>

definition start_processing :: "settings_form \<Rightarrow> bool \<Rightarrow> VideoProcessorApp \<Rightarrow> VideoProcessorApp \<times> bool" where
  "start_processing form thread_alive app =
     (let app1 = app\<lparr>config_vars := apply_settings form (config_vars app)\<rparr> in
      if file_list app1 = [] then (app1, False)
      else if thread_alive then (app1, False)
      else (app1\<lparr>processor := new_VideoProcessor (config_vars app1)\<rparr>, True))"

section \<open>The orchestrator: \<^verbatim>\<open>VideoProcessorApp.run_processing\<close>\<close>

text \<open>
  The world as one iteration of the loop meets it: whether a stop request has been made
  when the loop reads the flag; whether the user has applied the settings form again
  before \<^verbatim>\<open>config_vars["output_folder"]\<close> and before \<^verbatim>\<open>config_vars["output_suffix"]\<close>
  is read; what \<^verbatim>\<open>mkdir\<close> and \<^verbatim>\<open>exists\<close> do; and the world of the worker. The list of
  files is taken not to change while the loop runs.
\<close>

record job_world =
  stop_at_loop :: bool
  apply_before_folder :: "settings_form option"
  mkdir_raises :: "exn option"
  apply_before_suffix :: "settings_form option"
  exists_result :: "exn + bool"
  worker :: worker_world

fun user_applies :: "settings_form option \<Rightarrow> VideoProcessorApp \<Rightarrow> VideoProcessorApp" where
  "user_applies None app = app"
| "user_applies (Some form) app = app\<lparr>config_vars := apply_settings form (config_vars app)\<rparr>"

text \<open>How an iteration that ran to its end went: the skip branch, or the worker's return.\<close>

datatype job_end = Skipped_existing | Worker_returned worker_return

text \<open>The body of the loop, after the stop check: an exception, or how the job ended.\<close>

definition loop_body :: "os_path \<Rightarrow> job_world \<Rightarrow> nat \<Rightarrow> nat \<Rightarrow> string \<Rightarrow> VideoProcessorApp
    \<Rightarrow> event list \<times> (exn + job_end) \<times> VideoProcessorApp" where
  "loop_body L jw total_files i input_path app =
     (let evs1 = [Log (''Starting file '' @ str_nat (i + 1) @ '' of '' @ str_nat total_files @ '': ''
                       @ Path_name L input_path),
                  Progress ''file_progress'' 0];
          app1 = user_applies (apply_before_folder jw) app;
          output_folder = Path_joinpath L (Path_parent L input_path) (cfg_output_folder (config_vars app1))
      in case mkdir_raises jw of
           Some e \<Rightarrow> (evs1 @ [Mkdir output_folder], Inl e, app1)
         | None \<Rightarrow>
             (let app2 = user_applies (apply_before_suffix jw) app1;
                  input_stem = Path_stem L input_path;
                  output_name = input_stem @ cfg_output_suffix (config_vars app2);
                  output_path = Path_joinpath L output_folder output_name;
                  evs2 = evs1 @ [Mkdir output_folder, Exists output_path]
              in case exists_result jw of
                   Inl e \<Rightarrow> (evs2, Inl e, app2)
                 | Inr True \<Rightarrow>
                     (evs2 @ [Log (''[SKIP] Exists: '' @ output_name), Progress ''overall_progress'' (i + 1)],
                      Inr Skipped_existing, app2)
                 | Inr False \<Rightarrow>
                     (let (evs, r, p) = process_video L (worker jw) (processor app2) input_path output_path
                      in (evs2 @ evs @ [Progress ''overall_progress'' (i + 1)],
                          Inr (Worker_returned r), app2\<lparr>processor := p\<rparr>))))"

text \<open>
  The loop. \<^verbatim>\<open>W i\<close> is the world of the iteration with index \<^verbatim>\<open>i\<close>. The loop returns
  the events, how each finished iteration ended, how the loop was left, and the application.
\<close>

datatype loop_exit = Exhausted | Break | Raised exn

fun for_loop :: "os_path \<Rightarrow> (nat \<Rightarrow> job_world) \<Rightarrow> nat \<Rightarrow> nat \<Rightarrow> string list \<Rightarrow> VideoProcessorApp
    \<Rightarrow> event list \<times> job_end list \<times> loop_exit \<times> VideoProcessorApp" where
  "for_loop L W total_files i [] app = ([], [], Exhausted, app)"
| "for_loop L W total_files i (input_path # rest) app =
     (let app1 = app\<lparr>processor := stop_processing (stop_at_loop (W i)) (processor app)\<rparr> in
      if stop_event (processor app1) then ([], [], Break, app1)
      else
        case loop_body L (W i) total_files i input_path app1 of
          (evs, Inl e, app2) \<Rightarrow> (evs, [], Raised e, app2)
        | (evs, Inr r, app2) \<Rightarrow>
            (let (evs', ends, ex, app3) = for_loop L W total_files (Suc i) rest app2
             in (evs @ evs', r # ends, ex, app3)))"

text \<open>
  \<^verbatim>\<open>run_processing\<close>: the loop inside \<^verbatim>\<open>try\<close>, the handler for \<^verbatim>\<open>Exception\<close> and the
  \<^verbatim>\<open>finally\<close> clause. The third component is the exception that leaves the function:
  none, the handler catching every exception of the loop and raising none itself.
\<close>

definition critical_error :: "loop_exit \<Rightarrow> event list" where
  "critical_error ex =
     (case ex of
        Raised e \<Rightarrow> [Log (CHR 0x0A # ''[CRITICAL THREAD ERROR] '' @ str_exn e)]
      | Exhausted \<Rightarrow> []
      | Break \<Rightarrow> [])"

definition run_processing :: "os_path \<Rightarrow> (nat \<Rightarrow> job_world) \<Rightarrow> VideoProcessorApp
    \<Rightarrow> event list \<times> job_end list \<times> exn option \<times> VideoProcessorApp" where
  "run_processing L W app =
     (let total_files = length (file_list app);
          (evs, ends, ex, app1) = for_loop L W total_files 0 (file_list app) app
      in (evs @ critical_error ex @ [Log PROCESSING_DONE_TOKEN], ends, None, app1))"

section \<open>Predicates and sample inputs used in the statements\<close>

text \<open>No clause of the filter chain holds a comma of its own.\<close>

definition comma_free :: "VideoProcessor \<Rightarrow> bool" where
  "comma_free p =
     (list_all (\<lambda>b. CHR '','' \<notin> set (eq_str b)) (equalizer_bands p)
      \<and> CHR '','' \<notin> set (sn_str (speechnorm_params p)))"

text \<open>The configuration the application starts with, and a processor made from it.\<close>

definition default_config :: config where
  "default_config =
     \<lparr>cfg_supported_extensions = DEFAULT_SUPPORTED_EXTENSIONS,
      cfg_equalizer_bands = DEFAULT_EQUALIZER_BANDS,
      cfg_speechnorm = DEFAULT_SPEECHNORM,
      cfg_output_folder = DEFAULT_OUTPUT_FOLDER,
      cfg_output_suffix = DEFAULT_OUTPUT_SUFFIX\<rparr>"

definition default_processor :: VideoProcessor where
  "default_processor = new_VideoProcessor default_config"

text \<open>A processor without bands, whose link-channels parameter ends with a comma.\<close>

definition trailing_comma_processor :: VideoProcessor where
  "trailing_comma_processor =
     default_processor\<lparr>equalizer_bands := [],
       speechnorm_params := \<lparr>sn_e = ''6.25'', sn_r = ''0.00001'', sn_l = ''1,''\<rparr>\<rparr>"

text \<open>
  Outputs of the probe: a codec and a bit rate; a bit rate that is not available; a second
  line that is the superscript two; and two lines that are neither a codec nor a number.
\<close>

definition probe_output_ok :: string where
  "probe_output_ok = ''aac'' @ [CHR 0x0A] @ ''128000'' @ [CHR 0x0A]"





text \<open>The event that ends a batch: the sentinel on the log queue.\<close>

definition is_done :: "event \<Rightarrow> bool" where
  "is_done ev = (ev = Log PROCESSING_DONE_TOKEN)"

text \<open>
  A worker's world and a job's world in which nothing fails and nobody stops; an
  application with two files and the default configuration; and the worlds of a batch in
  which creating the output directory fails for the first file.
\<close>

definition quiet_worker :: worker_world where
  "quiet_worker =
     \<lparr>stop_at_entry = False,
      probe = Inr probe_output_ok,
      popen_raises = None,
      stdout_lines = [(''out_time_ms=1000'' @ [CHR 0x0A], False), (''progress=end'' @ [CHR 0x0A], False)],
      stdout_raises = None,
      stop_at_exit = False,
      returncode = 0\<rparr>"

definition quiet_job :: job_world where
  "quiet_job =
     \<lparr>stop_at_loop = False,
      apply_before_folder = None,
      mkdir_raises = None,
      apply_before_suffix = None,
      exists_result = Inr False,
      worker = quiet_worker\<rparr>"

definition sample_app :: VideoProcessorApp where
  "sample_app =
     \<lparr>file_list = [''/v/a.mkv'', ''/v/b.mp4''],
      config_vars = default_config,
      processor = default_processor\<rparr>"

definition mkdir_fails_first :: "nat \<Rightarrow> job_world" where
  "mkdir_fails_first i =
     (if i = 0 then quiet_job\<lparr>mkdir_raises := Some (Exception ''[Errno 13] Permission denied'')\<rparr>
      else quiet_job)"

text \<open>
  Worlds of a batch for the sample application: the output of the second file exists
  already; a stop request is made before the loop first reads the flag; a stop request is
  made after that, before the worker reads the flag for the first file.
\<close>

definition second_exists :: "nat \<Rightarrow> job_world" where
  "second_exists i = (if i = 1 then quiet_job\<lparr>exists_result := Inr True\<rparr> else quiet_job)"

definition stop_requested :: "nat \<Rightarrow> job_world" where
  "stop_requested i = quiet_job\<lparr>stop_at_loop := True\<rparr>"

definition stop_at_worker :: "nat \<Rightarrow> job_world" where
  "stop_at_worker i =
     (if i = 0 then quiet_job\<lparr>worker := quiet_worker\<lparr>stop_at_entry := True\<rparr>\<rparr> else quiet_job)"

text \<open>
  The settings form as filled in by default and as changed by the user; a batch in which
  nothing happens besides processing; and one in which the user applies the changed form
  after the first file, before the output folder is read for the second.
\<close>

definition default_form :: settings_form where
  "default_form =
     \<lparr>extensions_var = ''.mkv, .mp4, .mov'',
      band_vars = DEFAULT_EQUALIZER_BANDS,
      speechnorm_vars = DEFAULT_SPEECHNORM,
      folder_var = ''processed'',
      suffix_var = ''_enhanced.mkv''\<rparr>"

definition changed_form :: settings_form where
  "changed_form =
     \<lparr>extensions_var = ''.avi'',
      band_vars =
        [\<lparr>band_f = ''60'', band_t = ''h'', band_w = ''3'', band_g = ''-20''\<rparr>,
         \<lparr>band_f = ''120'', band_t = ''h'', band_w = ''3'', band_g = ''-20''\<rparr>,
         \<lparr>band_f = ''180'', band_t = ''h'', band_w = ''3'', band_g = ''-20''\<rparr>],
      speechnorm_vars = \<lparr>sn_e = ''12.5'', sn_r = ''0.0001'', sn_l = ''0''\<rparr>,
      folder_var = ''other'',
      suffix_var = ''_x.mkv''\<rparr>"

definition quiet_batch :: "nat \<Rightarrow> job_world" where
  "quiet_batch i = quiet_job"

definition applied_mid_batch :: "nat \<Rightarrow> job_world" where
  "applied_mid_batch i = (if i = 1 then quiet_job\<lparr>apply_before_folder := Some changed_form\<rparr> else quiet_job)"

text \<open>The commands of the processes started, in order.\<close>

fun popen_commands :: "event list \<Rightarrow> string list list" where
  "popen_commands [] = []"
| "popen_commands (Popen cmd # evs) = cmd # popen_commands evs"
| "popen_commands (ev # evs) = popen_commands evs"

section \<open>Properties of the filter chain\<close>

lemma eqs_loop_map: "eqs_loop bands eqs = eqs @ map eq_str bands"
  by (induction bands arbitrary: eqs) auto

lemma split_no_sep: "c \<notin> set x \<Longrightarrow> split c x = [x]"
  by (induction x) auto

lemma split_append_sep: "c \<notin> set x \<Longrightarrow> split c (x @ c # rest) = x # split c rest"
  by (induction x) auto

lemma split_join_sep:
  "sep = [c] \<Longrightarrow> xs \<noteq> [] \<Longrightarrow> list_all (\<lambda>x. c \<notin> set x) xs \<Longrightarrow> split c (join sep xs) = xs"
  by (induction sep xs rule: join.induct) (simp_all add: split_no_sep split_append_sep)

lemma join_snoc: "xs \<noteq> [] \<Longrightarrow> join sep (xs @ [y]) = join sep xs @ sep @ y"
  by (induction sep xs rule: join.induct) auto

lemma hd_join: "xs \<noteq> [] \<Longrightarrow> hd xs \<noteq> [] \<Longrightarrow> hd (join sep xs) = hd (hd xs)"
  by (induction sep xs rule: join.induct) auto

lemma build_audio_filter_join:
  "build_audio_filter p = join '','' (map eq_str (equalizer_bands p) @ [sn_str (speechnorm_params p)])"
  by (simp add: build_audio_filter_def eqs_loop_map)

lemma last_sn_str: "last (sn_str sn) = (if sn_l sn = [] then CHR ''='' else last (sn_l sn))"
  by (simp add: sn_str_def)

lemma build_audio_filter_last:
  "last (build_audio_filter p) =
     (if sn_l (speechnorm_params p) = [] then CHR ''='' else last (sn_l (speechnorm_params p)))"
proof -
  have ne: "sn_str (speechnorm_params p) \<noteq> []"
    by (simp add: sn_str_def)
  show ?thesis
    by (cases "equalizer_bands p = []") (simp_all add: build_audio_filter_join join_snoc ne last_sn_str)
qed

lemma build_audio_filter_hd:
  "hd (build_audio_filter p) = (if equalizer_bands p = [] then CHR ''s'' else CHR ''e'')"
  by (cases "equalizer_bands p") (simp_all add: build_audio_filter_join hd_join eq_str_def sn_str_def)


text \<open>
  Claim C4. \<^verbatim>\<open>build_audio_filter\<close> reads only the bands and the speechnorm parameters
  of the processor. Its result is the clauses joined with a comma: one equalizer clause
  for each band, in the order of the list, and after them the one speechnorm clause. When
  no clause holds a comma of its own, splitting the result at the commas gives back
  exactly these clauses, so there is one clause for each band and one more.
\<close>

theorem build_audio_filter_clauses:
  "build_audio_filter p =
     join '','' (map eq_str (equalizer_bands p) @ [sn_str (speechnorm_params p)])
   \<and> (comma_free p \<longrightarrow>
        split (CHR '','') (build_audio_filter p) =
          map eq_str (equalizer_bands p) @ [sn_str (speechnorm_params p)])
   \<and> (equalizer_bands q = equalizer_bands p \<and> speechnorm_params q = speechnorm_params p \<longrightarrow>
        build_audio_filter q = build_audio_filter p)"
proof (intro conjI impI)
  show "build_audio_filter p =
      join '','' (map eq_str (equalizer_bands p) @ [sn_str (speechnorm_params p)])"
    by (rule build_audio_filter_join)
next
  assume "comma_free p"
  then have "list_all (\<lambda>x. CHR '','' \<notin> set x)
      (map eq_str (equalizer_bands p) @ [sn_str (speechnorm_params p)])"
    by (simp add: comma_free_def list_all_iff)
  then show "split (CHR '','') (build_audio_filter p) =
      map eq_str (equalizer_bands p) @ [sn_str (speechnorm_params p)]"
    unfolding build_audio_filter_join by (intro split_join_sep) simp_all
next
  assume "equalizer_bands q = equalizer_bands p \<and> speechnorm_params q = speechnorm_params p"
  then show "build_audio_filter q = build_audio_filter p"
    by (simp add: build_audio_filter_def)
qed

theorem build_audio_filter_clauses_witness:
  "comma_free default_processor
   \<and> split (CHR '','') (build_audio_filter default_processor) =
       [''equalizer=f=50:t=q:w=2:g=-12'', ''equalizer=f=100:t=q:w=2:g=-10'',
        ''equalizer=f=150:t=q:w=2:g=-6'', ''speechnorm=e=6.25:r=0.00001:l=1'']
   \<and> build_audio_filter (default_processor\<lparr>stop_event := True\<rparr>) =
       build_audio_filter default_processor"
proof -
  have cf: "comma_free default_processor"
    by (simp add: comma_free_def default_processor_def new_VideoProcessor_def default_config_def
        DEFAULT_EQUALIZER_BANDS_def DEFAULT_SPEECHNORM_def eq_str_def sn_str_def)
  have clauses: "map eq_str (equalizer_bands default_processor) @ [sn_str (speechnorm_params default_processor)] =
       [''equalizer=f=50:t=q:w=2:g=-12'', ''equalizer=f=100:t=q:w=2:g=-10'',
        ''equalizer=f=150:t=q:w=2:g=-6'', ''speechnorm=e=6.25:r=0.00001:l=1'']"
    by (simp add: default_processor_def new_VideoProcessor_def default_config_def
        DEFAULT_EQUALIZER_BANDS_def DEFAULT_SPEECHNORM_def eq_str_def sn_str_def)
  show ?thesis
    using build_audio_filter_clauses [of default_processor "default_processor\<lparr>stop_event := True\<rparr>"]
      cf clauses
    by simp
qed

text \<open>
  Claim C10, as stated, fails: the parameters are passed through as they are, so a
  link-channels parameter that ends with a comma gives a result ending with a comma.
\<close>

theorem build_audio_filter_trailing_comma_counterexample:
  "equalizer_bands trailing_comma_processor = []
   \<and> build_audio_filter trailing_comma_processor = ''speechnorm=e=6.25:r=0.00001:l=1,''
   \<and> last (build_audio_filter trailing_comma_processor) = CHR '',''"
  by (simp add: trailing_comma_processor_def build_audio_filter_def sn_str_def)

text \<open>
  Claim C10, amended. With no band, \<^verbatim>\<open>build_audio_filter\<close> returns exactly the
  speechnorm clause: the join adds no separator. For any number of bands the result is not
  empty and does not begin with a comma, and it ends with a comma exactly when the
  link-channels parameter itself does.
\<close>

theorem build_audio_filter_no_stray_separator:
  "(equalizer_bands p = [] \<longrightarrow> build_audio_filter p = sn_str (speechnorm_params p))
   \<and> build_audio_filter p \<noteq> []
   \<and> hd (build_audio_filter p) \<noteq> CHR '',''
   \<and> (last (build_audio_filter p) = CHR '','') =
       (sn_l (speechnorm_params p) \<noteq> [] \<and> last (sn_l (speechnorm_params p)) = CHR '','')"
proof (intro conjI impI)
  assume "equalizer_bands p = []"
  then show "build_audio_filter p = sn_str (speechnorm_params p)"
    by (simp add: build_audio_filter_def)
next
  have "join '','' (x # xs) \<noteq> []" if "x \<noteq> []" for x xs
    using that by (cases xs) simp_all
  then show "build_audio_filter p \<noteq> []"
    by (cases "equalizer_bands p") (simp_all add: build_audio_filter_join eq_str_def sn_str_def)
next
  show "hd (build_audio_filter p) \<noteq> CHR '',''"
    by (simp add: build_audio_filter_hd)
next
  show "(last (build_audio_filter p) = CHR '','') =
      (sn_l (speechnorm_params p) \<noteq> [] \<and> last (sn_l (speechnorm_params p)) = CHR '','')"
    by (simp add: build_audio_filter_last)
qed

theorem build_audio_filter_no_stray_separator_witness:
  "equalizer_bands (default_processor\<lparr>equalizer_bands := []\<rparr>) = []
   \<and> build_audio_filter (default_processor\<lparr>equalizer_bands := []\<rparr>) = ''speechnorm=e=6.25:r=0.00001:l=1''
   \<and> last (build_audio_filter (default_processor\<lparr>equalizer_bands := []\<rparr>)) \<noteq> CHR '',''"
  using build_audio_filter_no_stray_separator [of "default_processor\<lparr>equalizer_bands := []\<rparr>"]
  by (simp add: default_processor_def new_VideoProcessor_def default_config_def
      DEFAULT_SPEECHNORM_def sn_str_def)

section \<open>Properties of the prober\<close>








text \<open>Evaluation of \<^const>\<open>str_nat\<close> on numerals.\<close>

lemma str_nat_0 [simp]: "str_nat 0 = ''0''"
  by (subst str_nat.simps) (simp add: digit_char_def)

lemma str_nat_1 [simp]: "str_nat 1 = ''1''" "str_nat (Suc 0) = ''1''"
  by (subst str_nat.simps, simp add: digit_char_def)+

lemma str_nat_numeral [simp]:
  "str_nat (numeral k) =
     (if numeral k < (10::nat) then [digit_char (numeral k)]
      else str_nat (numeral k div 10) @ [digit_char (numeral k mod 10)])"
  by (rule str_nat.simps)












text \<open>The lines of the sample outputs.\<close>

lemma lines_probe_output_ok:
  "splitlines (strip probe_output_ok) = [''aac'', ''128000'']"
  by (simp add: probe_output_ok_def strip_def isspace_def splitlines_def is_linebreak_def)













section \<open>Properties of the worker\<close>

lemma log_queue_append: "log_queue (xs @ ys) = log_queue xs @ log_queue ys"
  by (induction xs rule: log_queue.induct) simp_all

lemma stop_processing_fields:
  "stop_event (stop_processing b p) = (stop_event p \<or> b)"
  "current_process (stop_processing b p) = current_process p"
  "equalizer_bands (stop_processing b p) = equalizer_bands p"
  "speechnorm_params (stop_processing b p) = speechnorm_params p"
  by (simp_all add: stop_processing_def)

lemma parse_progress_events:
  "log_queue (parse_progress line) = [] \<and> Wait \<notin> set (parse_progress line)
   \<and> filter is_subprocess_call (parse_progress line) = []"
  by (simp add: parse_progress_def)

lemma read_stdout_events:
  "read_stdout lines raises p = (evs, r, p') \<Longrightarrow>
     log_queue evs = [] \<and> Wait \<notin> set evs \<and> filter is_subprocess_call evs = []
     \<and> current_process p' = current_process p \<and> (stop_event p \<longrightarrow> stop_event p')"
proof (induction lines raises p arbitrary: evs r p' rule: read_stdout.induct)
  case (1 raises p)
  then show ?case by simp
next
  case (2 line requested rest raises p)
  show ?case
  proof (cases "stop_event (stop_processing requested p)")
    case True
    with 2(3) show ?thesis by (auto simp: stop_processing_fields)
  next
    case nostop: False
    show ?thesis
    proof (cases "strip line = []")
      case True
      with nostop 2(3) have "read_stdout rest raises (stop_processing requested p) = (evs, r, p')"
        by simp
      from 2(1) [OF refl nostop refl True this] show ?thesis
        by (simp add: stop_processing_fields)
    next
      case False
      obtain evs' r' p2 where rec: "read_stdout rest raises (stop_processing requested p) = (evs', r', p2)"
        by (cases "read_stdout rest raises (stop_processing requested p)") auto
      from 2(2) [OF refl nostop refl False refl rec]
      have ih: "log_queue evs' = [] \<and> Wait \<notin> set evs' \<and> filter is_subprocess_call evs' = []
         \<and> current_process p2 = current_process (stop_processing requested p)
         \<and> (stop_event (stop_processing requested p) \<longrightarrow> stop_event p2)" .
      from nostop False rec 2(3) have
        "evs = (if contains (strip line) ''progress='' \<or> contains (strip line) ''out_time_ms=''
                then parse_progress (strip line) else []) @ [Debug (strip line)] @ evs'"
        "r = r'" "p' = p2"
        by (simp_all add: Let_def)
      with ih show ?thesis
        using parse_progress_events [of "strip line"]
        by (auto simp: log_queue_append stop_processing_fields)
    qed
  qed
qed


lemma get_audio_info_events:
  "log_queue (fst (get_audio_info result f)) = [] \<and> Wait \<notin> set (fst (get_audio_info result f))"
  by (auto simp: get_audio_info_def get_audio_info_try_def Let_def split: sum.splits prod.splits)


lemma process_video_at_entry:
  "stop_event p \<or> stop_at_entry w \<Longrightarrow>
   process_video L w p input_path output_path = ([], Stop_at_entry, stop_processing (stop_at_entry w) p)"
  by (auto simp: process_video_def stop_processing_def)




lemma strip_probe_output_ok: "strip probe_output_ok = ''aac'' @ [CHR 0x0A] @ ''128000''"
  by (simp add: probe_output_ok_def strip_def isspace_def)

lemma get_audio_info_ok:
  "get_audio_info (Inr probe_output_ok) f =
     ([Subprocess_run (ffprobe_cmd f), Debug (''[DEBUG] Audio info: aac'' @ [CHR 0x0A] @ ''128000'')],
      (''aac'', ''128k''))"
proof -
  have "isdigit ''128000''" "py_int ''128000'' = Inr 128000"
    by (simp_all add: isdigit_def isdigit_char_def isdecimal_char_def py_int_def
        int_of_digits_def digit_val_def)
  then show ?thesis
    using lines_probe_output_ok
    by (simp add: get_audio_info_def get_audio_info_try_def strip_probe_output_ok digit_char_def)
qed



section \<open>Properties of the orchestrator\<close>

lemma is_done_simps [simp]:
  "is_done (Log s) = (s = PROCESSING_DONE_TOKEN)"
  "\<not> is_done (Debug s)" "\<not> is_done (Progress k v)" "\<not> is_done (Subprocess_run cmd)"
  "\<not> is_done (Popen cmd)" "\<not> is_done Wait" "\<not> is_done (Mkdir d)" "\<not> is_done (Exists d)"
  by (simp_all add: is_done_def)

lemma no_log_no_done: "log_queue evs = [] \<Longrightarrow> filter is_done evs = []"
  by (induction evs rule: log_queue.induct) simp_all

lemma count_done: "count_list (log_queue evs) PROCESSING_DONE_TOKEN = length (filter is_done evs)"
  by (induction evs rule: log_queue.induct) simp_all

lemma get_audio_info_no_done: "filter is_done (fst (get_audio_info result f)) = []"
  by (rule no_log_no_done) (simp add: get_audio_info_events)

lemma process_video_try_no_done:
  "process_video_try L w p cmd output_path = (evs, r, p') \<Longrightarrow> filter is_done evs = []"
proof -
  assume a: "process_video_try L w p cmd output_path = (evs, r, p')"
  obtain evs_s rs p2 where rd:
    "read_stdout (stdout_lines w) (stdout_raises w) (p\<lparr>current_process := True\<rparr>) = (evs_s, rs, p2)"
    by (cases "read_stdout (stdout_lines w) (stdout_raises w) (p\<lparr>current_process := True\<rparr>)") auto
  from read_stdout_events [OF rd] have "filter is_done evs_s = []"
    by (simp add: no_log_no_done)
  with a rd show ?thesis
    by (auto simp: process_video_try_def PROCESSING_DONE_TOKEN_def Let_def
        split: option.splits if_splits)
qed

lemma process_video_no_done: "filter is_done (fst (process_video L w p input_path output_path)) = []"
proof (cases "stop_event (stop_processing (stop_at_entry w) p)")
  case True
  then show ?thesis by (simp add: process_video_def)
next
  case False
  obtain evs_probe codec bitrate where info:
    "get_audio_info (probe w) input_path = (evs_probe, codec, bitrate)"
    by (cases "get_audio_info (probe w) input_path") auto
  have probe: "filter is_done evs_probe = []"
    using get_audio_info_no_done [of "probe w" input_path] info by simp
  let ?p0 = "stop_processing (stop_at_entry w) p"
  let ?cmd = "ffmpeg_cmd input_path codec bitrate (build_audio_filter ?p0) output_path"
  obtain evs r p1 where tr: "process_video_try L w ?p0 ?cmd output_path = (evs, r, p1)"
    by (cases "process_video_try L w ?p0 ?cmd output_path") auto
  from process_video_try_no_done [OF tr] have "filter is_done evs = []" .
  with False info probe tr show ?thesis
    by (cases r) (simp_all add: process_video_def Let_def PROCESSING_DONE_TOKEN_def)
qed

lemma loop_body_no_done:
  "filter is_done (fst (loop_body L jw total_files i input_path app)) = []"
proof -
  have pv: "filter is_done evs = []" if "process_video L w p a b = (evs, r, p')" for w p a b evs r p'
    using process_video_no_done [of L w p a b] that by simp
  show ?thesis
    by (auto simp: loop_body_def Let_def PROCESSING_DONE_TOKEN_def dest: pv
        split: option.splits sum.splits bool.splits prod.splits)
qed

lemma for_loop_no_done:
  "filter is_done (fst (for_loop L W total_files i files app)) = []"
proof (induction files arbitrary: i app)
  case Nil
  show ?case by simp
next
  case (Cons input_path rest)
  let ?app1 = "app\<lparr>processor := stop_processing (stop_at_loop (W i)) (processor app)\<rparr>"
  show ?case
  proof (cases "stop_event (processor ?app1)")
    case True
    then show ?thesis by simp
  next
    case False
    obtain evs r app2 where body: "loop_body L (W i) total_files i input_path ?app1 = (evs, r, app2)"
      by (cases "loop_body L (W i) total_files i input_path ?app1") auto
    have b: "filter is_done evs = []"
      using loop_body_no_done [of L "W i" total_files i input_path ?app1] body by simp
    show ?thesis
    proof (cases r)
      case (Inl e)
      with False body b show ?thesis by simp
    next
      case (Inr je)
      obtain evs' ends ex app3 where rec:
        "for_loop L W total_files (Suc i) rest app2 = (evs', ends, ex, app3)"
        by (cases "for_loop L W total_files (Suc i) rest app2") auto
      from Cons.IH [of "Suc i" app2] rec have "filter is_done evs' = []" by simp
      with Inr False body b rec show ?thesis by simp
    qed
  qed
qed

lemma critical_error_no_done: "filter is_done (critical_error ex) = []"
  by (cases ex) (simp_all add: critical_error_def PROCESSING_DONE_TOKEN_def)

lemma run_processing_events:
  "for_loop L W (length (file_list app)) 0 (file_list app) app = (evs, ends, ex, app1) \<Longrightarrow>
   run_processing L W app = (evs @ critical_error ex @ [Log PROCESSING_DONE_TOKEN], ends, None, app1)"
  by (simp add: run_processing_def)

lemma str_nat_Suc_Suc_0 [simp]: "str_nat (Suc (Suc 0)) = ''2''"
  by (subst str_nat.simps) (simp add: digit_char_def)


lemma mkdir_fails_first_loop:
  "for_loop posix mkdir_fails_first (length (file_list sample_app)) 0 (file_list sample_app) sample_app =
     ([Log ''Starting file 1 of 2: a.mkv'', Progress ''file_progress'' 0, Mkdir ''/v/processed''],
      [], Raised (Exception ''[Errno 13] Permission denied''), sample_app)"
  by (simp add: sample_app_def mkdir_fails_first_def quiet_job_def loop_body_def
      stop_processing_def default_processor_def new_VideoProcessor_def default_config_def posix_def
      DEFAULT_OUTPUT_FOLDER_def Let_def)

text \<open>
  Claim C2. Whatever the world does, \<^verbatim>\<open>run_processing\<close> lets no exception out, the
  sentinel is the last event and the last item of the log queue, and it is on the log
  queue exactly once. When the loop raises, the critical-error message is logged just
  before the sentinel; when the loop ends or is left by the stop check, the sentinel
  follows the events of the loop directly.
\<close>

theorem run_processing_sentinel:
  "fst (snd (snd (run_processing L W app))) = None
   \<and> last (fst (run_processing L W app)) = Log PROCESSING_DONE_TOKEN
   \<and> last (log_queue (fst (run_processing L W app))) = PROCESSING_DONE_TOKEN
   \<and> count_list (log_queue (fst (run_processing L W app))) PROCESSING_DONE_TOKEN = 1
   \<and> (fst (snd (snd (for_loop L W (length (file_list app)) 0 (file_list app) app))) = Raised e \<longrightarrow>
        fst (run_processing L W app) =
          fst (for_loop L W (length (file_list app)) 0 (file_list app) app) @
          [Log (CHR 0x0A # ''[CRITICAL THREAD ERROR] '' @ str_exn e), Log PROCESSING_DONE_TOKEN])
   \<and> (fst (snd (snd (for_loop L W (length (file_list app)) 0 (file_list app) app))) \<in> {Exhausted, Break} \<longrightarrow>
        fst (run_processing L W app) =
          fst (for_loop L W (length (file_list app)) 0 (file_list app) app) @ [Log PROCESSING_DONE_TOKEN])"
proof -
  obtain evs ends ex app1 where
    loop: "for_loop L W (length (file_list app)) 0 (file_list app) app = (evs, ends, ex, app1)"
    by (cases "for_loop L W (length (file_list app)) 0 (file_list app) app") auto
  note run = run_processing_events [OF loop]
  have nd: "filter is_done evs = []"
    using for_loop_no_done [of L W "length (file_list app)" 0 "file_list app" app] loop by simp
  have "count_list (log_queue (evs @ critical_error ex @ [Log PROCESSING_DONE_TOKEN])) PROCESSING_DONE_TOKEN = 1"
    by (simp add: count_done nd critical_error_no_done)
  moreover have "last (log_queue (evs @ critical_error ex @ [Log PROCESSING_DONE_TOKEN])) = PROCESSING_DONE_TOKEN"
    by (simp add: log_queue_append)
  ultimately show ?thesis
    using loop by (auto simp: run critical_error_def)
qed

theorem run_processing_sentinel_witness:
  "fst (snd (snd (for_loop posix mkdir_fails_first (length (file_list sample_app)) 0
       (file_list sample_app) sample_app))) = Raised (Exception ''[Errno 13] Permission denied'')
   \<and> fst (run_processing posix mkdir_fails_first sample_app) =
       [Log ''Starting file 1 of 2: a.mkv'', Progress ''file_progress'' 0, Mkdir ''/v/processed'',
        Log (CHR 0x0A # ''[CRITICAL THREAD ERROR] [Errno 13] Permission denied''),
        Log PROCESSING_DONE_TOKEN]
   \<and> count_list (log_queue (fst (run_processing posix mkdir_fails_first sample_app)))
         PROCESSING_DONE_TOKEN = 1"
  using run_processing_sentinel [of posix mkdir_fails_first sample_app
      "Exception ''[Errno 13] Permission denied''"]
    mkdir_fails_first_loop
  by (simp add: PROCESSING_DONE_TOKEN_def)

lemma for_loop_append:
  "for_loop L W n i pre app = (evs1, ends1, Exhausted, app1) \<Longrightarrow>
   for_loop L W n i (pre @ post) app =
     (case for_loop L W n (i + length pre) post app1 of
        (evs2, ends2, ex, app2) \<Rightarrow> (evs1 @ evs2, ends1 @ ends2, ex, app2))"
proof (induction pre arbitrary: i app evs1 ends1)
  case Nil
  then show ?case by (simp split: prod.splits)
next
  case (Cons input_path rest)
  let ?app0 = "app\<lparr>processor := stop_processing (stop_at_loop (W i)) (processor app)\<rparr>"
  from Cons.prems have nostop: "\<not> stop_event (processor ?app0)"
    by (auto split: if_splits)
  obtain evs r app2 where body: "loop_body L (W i) n i input_path ?app0 = (evs, r, app2)"
    by (cases "loop_body L (W i) n i input_path ?app0") auto
  from Cons.prems nostop body obtain je where r: "r = Inr je"
    by (cases r) auto
  obtain evs' ends' ex' app3 where rec: "for_loop L W n (Suc i) rest app2 = (evs', ends', ex', app3)"
    by (cases "for_loop L W n (Suc i) rest app2") auto
  from Cons.prems nostop body r rec have eq: "evs1 = evs @ evs'" "ends1 = je # ends'"
      "ex' = Exhausted" "app1 = app3"
    by simp_all
  from Cons.IH [of "Suc i" app2 evs' ends'] rec eq
  have "for_loop L W n (Suc i) (rest @ post) app2 =
     (case for_loop L W n (Suc i + length rest) post app1 of
        (evs2, ends2, ex, app2) \<Rightarrow> (evs' @ evs2, ends' @ ends2, ex, app2))"
    by simp
  with nostop body r eq show ?case
    by (simp split: prod.splits)
qed

lemma stop_processing_False [simp]: "stop_processing False p = p"
  by (simp add: stop_processing_def)

lemma processor_update_same [simp]: "app\<lparr>processor := processor app\<rparr> = app"
  by simp

lemma for_loop_skip_head:
  assumes "\<not> stop_event (processor app)" "\<not> stop_at_loop (W i)"
    and "mkdir_raises (W i) = None" "exists_result (W i) = Inr True"
  shows "for_loop L W n i (input_path # post) app =
     (let app1 = user_applies (apply_before_folder (W i)) app;
          app2 = user_applies (apply_before_suffix (W i)) app1;
          output_folder = Path_joinpath L (Path_parent L input_path) (cfg_output_folder (config_vars app1));
          output_name = Path_stem L input_path @ cfg_output_suffix (config_vars app2)
      in case for_loop L W n (Suc i) post app2 of
           (evs, ends, ex, app3) \<Rightarrow>
             ([Log (''Starting file '' @ str_nat (i + 1) @ '' of '' @ str_nat n @ '': '' @ Path_name L input_path),
               Progress ''file_progress'' 0,
               Mkdir output_folder,
               Exists (Path_joinpath L output_folder output_name),
               Log (''[SKIP] Exists: '' @ output_name),
               Progress ''overall_progress'' (i + 1)] @ evs,
              Skipped_existing # ends, ex, app3))"
  using assms by (simp add: loop_body_def Let_def split: prod.splits)


lemma for_loop_stop_head:
  assumes "stop_event (processor app) \<or> stop_at_loop (W i)"
  shows "for_loop L W n i (input_path # post) app =
     ([], [], Break, app\<lparr>processor := stop_processing (stop_at_loop (W i)) (processor app)\<rparr>)"
  using assms by (auto simp: stop_processing_def)

lemma user_applies_processor [simp]: "processor (user_applies form app) = processor app"
  by (cases form) simp_all

lemma user_applies_file_list [simp]: "file_list (user_applies form app) = file_list app"
  by (cases form) simp_all

text \<open>
  Claim C3. The files before this one have been gone through (the loop over them ran to
  its end), no stop request is seen at the loop's check, the output directory is there
  (\<^verbatim>\<open>mkdir\<close> with \<^verbatim>\<open>exist_ok\<close> does not raise) and the output path exists. Then
  the events of this file are exactly six: the start message, the file progress reset,
  the two calls of the file system, the skip message and the overall progress with the
  index of the file plus one. No subprocess is run or started, the processor is left as
  it was, the file ends as skipped, and the loop goes on with the files after it.
\<close>

theorem skip_existing_output:
  assumes "for_loop L W n i pre app = (evs1, ends1, Exhausted, app1)"
    and "\<not> stop_event (processor app1)" and "\<not> stop_at_loop (W (i + length pre))"
    and "mkdir_raises (W (i + length pre)) = None"
    and "exists_result (W (i + length pre)) = Inr True"
  shows "for_loop L W n i (pre @ input_path # post) app =
     (let j = i + length pre;
          app2 = user_applies (apply_before_folder (W j)) app1;
          app3 = user_applies (apply_before_suffix (W j)) app2;
          output_folder = Path_joinpath L (Path_parent L input_path) (cfg_output_folder (config_vars app2));
          output_name = Path_stem L input_path @ cfg_output_suffix (config_vars app3)
      in case for_loop L W n (Suc j) post app3 of
           (evs, ends, ex, app4) \<Rightarrow>
             (evs1 @
              [Log (''Starting file '' @ str_nat (j + 1) @ '' of '' @ str_nat n @ '': '' @ Path_name L input_path),
               Progress ''file_progress'' 0,
               Mkdir output_folder,
               Exists (Path_joinpath L output_folder output_name),
               Log (''[SKIP] Exists: '' @ output_name),
               Progress ''overall_progress'' (j + 1)] @ evs,
              ends1 @ Skipped_existing # ends, ex, app4))
     \<and> processor (user_applies (apply_before_suffix (W (i + length pre)))
           (user_applies (apply_before_folder (W (i + length pre))) app1)) = processor app1"
  using for_loop_skip_head [of app1 W "i + length pre" L n input_path post] assms(2-5)
  by (simp add: for_loop_append [OF assms(1)] Let_def split: prod.splits)


lemma for_loop_stopped:
  "stop_event (processor app) \<Longrightarrow>
   fst (for_loop L W n i files app) = [] \<and> fst (snd (for_loop L W n i files app)) = []"
  by (cases files) (simp_all add: stop_processing_def)

text \<open>
  Claim C7, amended. When the stop request is there at the loop's first check, the loop
  is left at once: the sentinel is the only event and no file is handed to the worker,
  the first no more than the others. A worker entered with the stop request made returns
  from its first line, the outcome the specification calls stopped, with no event: no
  probe and no process. When the request comes after the loop's check for the first file
  and before the worker's, the first file ends so, and nothing but the overall progress
  and the sentinel follows.
\<close>

theorem stop_before_start:
  "(stop_event (processor app) \<or> stop_at_loop (W 0) \<longrightarrow>
      fst (run_processing L W app) = [Log PROCESSING_DONE_TOKEN]
      \<and> fst (snd (run_processing L W app)) = [])
   \<and> (stop_event p \<or> stop_at_entry w \<longrightarrow>
        process_video L w p input_path output_path =
          ([], Stop_at_entry, stop_processing (stop_at_entry w) p))
   \<and> terminal_state Stop_at_entry = Stopped
   \<and> (file_list app = input_path # rest \<and> \<not> stop_event (processor app) \<and> \<not> stop_at_loop (W 0)
       \<and> mkdir_raises (W 0) = None \<and> exists_result (W 0) = Inr False
       \<and> stop_at_entry (worker (W 0)) \<longrightarrow>
        fst (run_processing L W app) =
          (let app1 = user_applies (apply_before_folder (W 0)) app;
               app2 = user_applies (apply_before_suffix (W 0)) app1;
               output_folder = Path_joinpath L (Path_parent L input_path) (cfg_output_folder (config_vars app1));
               output_name = Path_stem L input_path @ cfg_output_suffix (config_vars app2)
           in [Log (''Starting file 1 of '' @ str_nat (length (file_list app)) @ '': '' @ Path_name L input_path),
               Progress ''file_progress'' 0,
               Mkdir output_folder,
               Exists (Path_joinpath L output_folder output_name),
               Progress ''overall_progress'' 1,
               Log PROCESSING_DONE_TOKEN])
        \<and> fst (snd (run_processing L W app)) = [Worker_returned Stop_at_entry])"
proof (intro conjI impI)
  assume a: "stop_event (processor app) \<or> stop_at_loop (W 0)"
  obtain evs ends ex app1 where fl:
    "for_loop L W (length (file_list app)) 0 (file_list app) app = (evs, ends, ex, app1)"
    by (cases "for_loop L W (length (file_list app)) 0 (file_list app) app") auto
  have "evs = [] \<and> ends = [] \<and> ex \<in> {Exhausted, Break}"
  proof (cases "file_list app")
    case Nil
    with fl show ?thesis by simp
  next
    case (Cons x xs)
    with fl for_loop_stop_head [of app W 0 L "length (file_list app)" x xs] a show ?thesis
      by simp
  qed
  then have run: "run_processing L W app = ([Log PROCESSING_DONE_TOKEN], [], None, app1)"
    using fl by (auto simp: run_processing_def critical_error_def)
  show "fst (run_processing L W app) = [Log PROCESSING_DONE_TOKEN]"
    by (simp add: run)
  show "fst (snd (run_processing L W app)) = []"
    by (simp add: run)
next
  assume "stop_event p \<or> stop_at_entry w"
  then show "process_video L w p input_path output_path =
      ([], Stop_at_entry, stop_processing (stop_at_entry w) p)"
    by (rule process_video_at_entry)
next
  show "terminal_state Stop_at_entry = Stopped" by simp
next
  assume a: "file_list app = input_path # rest \<and> \<not> stop_event (processor app) \<and> \<not> stop_at_loop (W 0)
       \<and> mkdir_raises (W 0) = None \<and> exists_result (W 0) = Inr False
       \<and> stop_at_entry (worker (W 0))"
  let ?app1 = "user_applies (apply_before_folder (W 0)) app"
  let ?app2 = "user_applies (apply_before_suffix (W 0)) ?app1"
  let ?app3 = "?app2\<lparr>processor := stop_processing True (processor app)\<rparr>"
  have st: "stop_event (processor ?app3)"
    by (simp add: stop_processing_def)
  note rest = for_loop_stopped [OF st, of L W "length (file_list app)" "Suc 0" rest]
  have ex: "critical_error (fst (snd (snd (for_loop L W (length (file_list app)) (Suc 0) rest ?app3)))) = []"
    using st by (cases rest) (simp_all add: critical_error_def stop_processing_def)
  obtain evs ends ex' app4 where fl:
    "for_loop L W (length (file_list app)) (Suc 0) rest ?app3 = (evs, ends, ex', app4)"
    by (cases "for_loop L W (length (file_list app)) (Suc 0) rest ?app3") auto
  with rest ex have e: "evs = []" "ends = []" "critical_error ex' = []"
    by simp_all
  have run: "run_processing L W app =
      ([Log (''Starting file 1 of '' @ str_nat (length (file_list app)) @ '': '' @ Path_name L input_path),
        Progress ''file_progress'' 0,
        Mkdir (Path_joinpath L (Path_parent L input_path) (cfg_output_folder (config_vars ?app1))),
        Exists (Path_joinpath L
          (Path_joinpath L (Path_parent L input_path) (cfg_output_folder (config_vars ?app1)))
          (Path_stem L input_path @ cfg_output_suffix (config_vars ?app2))),
        Progress ''overall_progress'' 1,
        Log PROCESSING_DONE_TOKEN],
       [Worker_returned Stop_at_entry], None, app4)"
    using a fl e
    by (simp add: run_processing_def loop_body_def process_video_at_entry Let_def)
  show "fst (run_processing L W app) =
          (let app1 = user_applies (apply_before_folder (W 0)) app;
               app2 = user_applies (apply_before_suffix (W 0)) app1;
               output_folder = Path_joinpath L (Path_parent L input_path) (cfg_output_folder (config_vars app1));
               output_name = Path_stem L input_path @ cfg_output_suffix (config_vars app2)
           in [Log (''Starting file 1 of '' @ str_nat (length (file_list app)) @ '': '' @ Path_name L input_path),
               Progress ''file_progress'' 0,
               Mkdir output_folder,
               Exists (Path_joinpath L output_folder output_name),
               Progress ''overall_progress'' 1,
               Log PROCESSING_DONE_TOKEN])"
    by (simp add: run Let_def)
  show "fst (snd (run_processing L W app)) = [Worker_returned Stop_at_entry]"
    by (simp add: run)
qed

lemma process_video_quiet_worker:
  "process_video L quiet_worker default_processor input_path output_path =
     ([Subprocess_run (ffprobe_cmd input_path),
       Debug (''[DEBUG] Audio info: aac'' @ [CHR 0x0A] @ ''128000''),
       Log (CHR 0x0A # ''[PROCESSING] '' @ basename L input_path),
       Debug (''[DEBUG] Command: '' @ join '' ''
         (ffmpeg_cmd input_path ''aac'' ''128k'' (build_audio_filter default_processor) output_path)),
       Popen (ffmpeg_cmd input_path ''aac'' ''128k'' (build_audio_filter default_processor) output_path),
       Progress ''file_progress'' 50,
       Debug ''out_time_ms=1000'',
       Progress ''file_progress'' 100,
       Debug ''progress=end'',
       Wait,
       Log (''[SUCCESS] '' @ basename L output_path),
       Progress ''file_progress'' 100],
      Success,
      default_processor)"
proof -
  have se: "\<not> stop_event default_processor"
    by (simp add: default_processor_def new_VideoProcessor_def)
  have cp: "default_processor\<lparr>current_process := True, current_process := False\<rparr> = default_processor"
    by (simp add: default_processor_def new_VideoProcessor_def)
  have rd: "read_stdout (stdout_lines quiet_worker) (stdout_raises quiet_worker)
       (default_processor\<lparr>current_process := True\<rparr>) =
     ([Progress ''file_progress'' 50, Debug ''out_time_ms=1000'',
       Progress ''file_progress'' 100, Debug ''progress=end''],
      None, default_processor\<lparr>current_process := True\<rparr>)"
    using se by (simp add: quiet_worker_def stop_processing_def parse_progress_def strip_def isspace_def)
  have q: "\<not> stop_at_entry quiet_worker" "probe quiet_worker = Inr probe_output_ok"
    "popen_raises quiet_worker = None" "\<not> stop_at_exit quiet_worker" "returncode quiet_worker = 0"
    by (simp_all add: quiet_worker_def)
  show ?thesis
    using se cp
    by (simp add: process_video_def process_video_try_def q rd get_audio_info_ok Let_def)
qed

lemma default_processor_not_stopped [simp]: "\<not> stop_event default_processor"
  by (simp add: default_processor_def new_VideoProcessor_def)

lemma apply_settings_default: "apply_settings default_form default_config = default_config"
  by (simp add: apply_settings_def default_form_def default_config_def DEFAULT_SUPPORTED_EXTENSIONS_def
      DEFAULT_EQUALIZER_BANDS_def DEFAULT_OUTPUT_FOLDER_def DEFAULT_OUTPUT_SUFFIX_def strip_def isspace_def)

lemma quiet_batch_run:
  "fst (run_processing posix quiet_batch sample_app) =
     [Log ''Starting file 1 of 2: a.mkv'', Progress ''file_progress'' 0,
      Mkdir ''/v/processed'', Exists ''/v/processed/a_enhanced.mkv''] @
     fst (process_video posix quiet_worker default_processor ''/v/a.mkv'' ''/v/processed/a_enhanced.mkv'') @
     [Progress ''overall_progress'' 1,
      Log ''Starting file 2 of 2: b.mp4'', Progress ''file_progress'' 0,
      Mkdir ''/v/processed'', Exists ''/v/processed/b_enhanced.mkv''] @
     fst (process_video posix quiet_worker default_processor ''/v/b.mp4'' ''/v/processed/b_enhanced.mkv'') @
     [Progress ''overall_progress'' 2, Log PROCESSING_DONE_TOKEN]"
  by (simp add: run_processing_def sample_app_def quiet_batch_def quiet_job_def loop_body_def
      process_video_quiet_worker default_config_def DEFAULT_OUTPUT_FOLDER_def DEFAULT_OUTPUT_SUFFIX_def
      posix_def critical_error_def Let_def del: processor_update_same)

lemma apply_settings_changed:
  "cfg_output_folder (apply_settings changed_form default_config) = ''other''
   \<and> cfg_output_suffix (apply_settings changed_form default_config) = ''_x.mkv''
   \<and> cfg_equalizer_bands (apply_settings changed_form default_config) = band_vars changed_form
   \<and> cfg_speechnorm (apply_settings changed_form default_config) = speechnorm_vars changed_form"
  by (simp add: apply_settings_def changed_form_def default_config_def
      DEFAULT_EQUALIZER_BANDS_def strip_def isspace_def)

lemma default_config_fields:
  "cfg_output_folder default_config = ''processed''"
  "cfg_output_suffix default_config = ''_enhanced.mkv''"
  by (simp_all add: default_config_def DEFAULT_OUTPUT_FOLDER_def DEFAULT_OUTPUT_SUFFIX_def)

lemma applied_mid_batch_run:
  "fst (run_processing posix applied_mid_batch sample_app) =
     [Log ''Starting file 1 of 2: a.mkv'', Progress ''file_progress'' 0,
      Mkdir ''/v/processed'', Exists ''/v/processed/a_enhanced.mkv''] @
     fst (process_video posix quiet_worker default_processor ''/v/a.mkv'' ''/v/processed/a_enhanced.mkv'') @
     [Progress ''overall_progress'' 1,
      Log ''Starting file 2 of 2: b.mp4'', Progress ''file_progress'' 0,
      Mkdir ''/v/other'', Exists ''/v/other/b_x.mkv''] @
     fst (process_video posix quiet_worker default_processor ''/v/b.mp4'' ''/v/other/b_x.mkv'') @
     [Progress ''overall_progress'' 2, Log PROCESSING_DONE_TOKEN]"
  by (simp add: run_processing_def sample_app_def applied_mid_batch_def quiet_job_def loop_body_def
      process_video_quiet_worker apply_settings_changed default_config_fields
      posix_def critical_error_def Let_def del: processor_update_same)

text \<open>
  Claim C9 at a failing input. A batch of two files is started with the default form.
  The processor holds the output folder and suffix of that moment, and the loop does not
  read them: it reads \<^verbatim>\<open>config_vars\<close>. When the user applies a changed form after
  the first file, the second file is written to the changed folder under the changed
  suffix, while the filter chain of its command is still the one of the start.
\<close>

theorem output_paths_follow_live_config:
  "start_processing default_form False sample_app = (sample_app, True)
   \<and> output_folder (processor sample_app) = ''processed''
   \<and> output_suffix (processor sample_app) = ''_enhanced.mkv''
   \<and> map last (popen_commands (fst (run_processing posix quiet_batch sample_app))) =
       [''/v/processed/a_enhanced.mkv'', ''/v/processed/b_enhanced.mkv'']
   \<and> map last (popen_commands (fst (run_processing posix applied_mid_batch sample_app))) =
       [''/v/processed/a_enhanced.mkv'', ''/v/other/b_x.mkv'']
   \<and> map (\<lambda>cmd. cmd ! 11) (popen_commands (fst (run_processing posix applied_mid_batch sample_app))) =
       [build_audio_filter default_processor, build_audio_filter default_processor]"
proof -
  have start: "start_processing default_form False sample_app = (sample_app, True)"
    by (simp add: start_processing_def sample_app_def apply_settings_default default_processor_def)
  have snap: "output_folder (processor sample_app) = ''processed''"
    "output_suffix (processor sample_app) = ''_enhanced.mkv''"
    by (simp_all add: sample_app_def default_processor_def new_VideoProcessor_def default_config_def
        DEFAULT_OUTPUT_FOLDER_def DEFAULT_OUTPUT_SUFFIX_def)
  show ?thesis
    by (simp add: start snap quiet_batch_run applied_mid_batch_run process_video_quiet_worker
        ffmpeg_cmd_def)
qed

lemma for_loop_first_quiet:
  "for_loop posix second_exists 2 0 [''/v/a.mkv''] sample_app =
     ([Log ''Starting file 1 of 2: a.mkv'', Progress ''file_progress'' 0,
       Mkdir ''/v/processed'', Exists ''/v/processed/a_enhanced.mkv''] @
      fst (process_video posix quiet_worker default_processor ''/v/a.mkv'' ''/v/processed/a_enhanced.mkv'') @
      [Progress ''overall_progress'' 1],
      [Worker_returned Success], Exhausted, sample_app)"
proof -
  have "sample_app\<lparr>processor := default_processor\<rparr> = sample_app"
    by (simp add: sample_app_def)
  then show ?thesis
    by (simp add: sample_app_def second_exists_def quiet_job_def loop_body_def
      process_video_quiet_worker default_config_def DEFAULT_OUTPUT_FOLDER_def DEFAULT_OUTPUT_SUFFIX_def
      posix_def digit_char_def Let_def del: processor_update_same)
qed

theorem skip_existing_output_witness:
  "for_loop posix second_exists 2 0 [''/v/a.mkv''] sample_app =
     ([Log ''Starting file 1 of 2: a.mkv'', Progress ''file_progress'' 0,
       Mkdir ''/v/processed'', Exists ''/v/processed/a_enhanced.mkv''] @
      fst (process_video posix quiet_worker default_processor ''/v/a.mkv'' ''/v/processed/a_enhanced.mkv'') @
      [Progress ''overall_progress'' 1],
      [Worker_returned Success], Exhausted, sample_app)
   \<and> \<not> stop_event (processor sample_app) \<and> \<not> stop_at_loop (second_exists 1)
   \<and> mkdir_raises (second_exists 1) = None \<and> exists_result (second_exists 1) = Inr True
   \<and> for_loop posix second_exists 2 0 ([''/v/a.mkv''] @ ''/v/b.mp4'' # []) sample_app =
     (([Log ''Starting file 1 of 2: a.mkv'', Progress ''file_progress'' 0,
        Mkdir ''/v/processed'', Exists ''/v/processed/a_enhanced.mkv''] @
       fst (process_video posix quiet_worker default_processor ''/v/a.mkv'' ''/v/processed/a_enhanced.mkv'') @
       [Progress ''overall_progress'' 1]) @
      [Log ''Starting file 2 of 2: b.mp4'', Progress ''file_progress'' 0,
       Mkdir ''/v/processed'', Exists ''/v/processed/b_enhanced.mkv'',
       Log ''[SKIP] Exists: b_enhanced.mkv'', Progress ''overall_progress'' 2],
      [Worker_returned Success, Skipped_existing], Exhausted, sample_app)"
proof -
  have hyps: "\<not> stop_event (processor sample_app)" "\<not> stop_at_loop (second_exists (0 + length [''/v/a.mkv'']))"
    "mkdir_raises (second_exists (0 + length [''/v/a.mkv''])) = None"
    "exists_result (second_exists (0 + length [''/v/a.mkv''])) = Inr True"
    by (simp_all add: sample_app_def second_exists_def quiet_job_def)
  have cfg: "cfg_output_folder (config_vars sample_app) = ''processed''"
    "cfg_output_suffix (config_vars sample_app) = ''_enhanced.mkv''"
    "apply_before_folder (second_exists (Suc 0)) = None" "apply_before_suffix (second_exists (Suc 0)) = None"
    by (simp_all add: sample_app_def default_config_def DEFAULT_OUTPUT_FOLDER_def DEFAULT_OUTPUT_SUFFIX_def
        second_exists_def quiet_job_def)
  from skip_existing_output [OF for_loop_first_quiet hyps, of "''/v/b.mp4''" "[]"]
  have "for_loop posix second_exists 2 0 ([''/v/a.mkv''] @ ''/v/b.mp4'' # []) sample_app =
     (([Log ''Starting file 1 of 2: a.mkv'', Progress ''file_progress'' 0,
        Mkdir ''/v/processed'', Exists ''/v/processed/a_enhanced.mkv''] @
       fst (process_video posix quiet_worker default_processor ''/v/a.mkv'' ''/v/processed/a_enhanced.mkv'') @
       [Progress ''overall_progress'' 1]) @
      [Log ''Starting file 2 of 2: b.mp4'', Progress ''file_progress'' 0,
       Mkdir ''/v/processed'', Exists ''/v/processed/b_enhanced.mkv'',
       Log ''[SKIP] Exists: b_enhanced.mkv'', Progress ''overall_progress'' 2],
      [Worker_returned Success, Skipped_existing], Exhausted, sample_app)"
    by (simp add: cfg posix_def digit_char_def Let_def)
  with for_loop_first_quiet hyps show ?thesis
    by simp
qed



lemma stop_requested_run:
  "run_processing posix stop_requested sample_app =
     ([Log PROCESSING_DONE_TOKEN], [], None,
      sample_app\<lparr>processor := default_processor\<lparr>stop_event := True\<rparr>\<rparr>)"
  by (simp add: run_processing_def sample_app_def stop_requested_def quiet_job_def
      stop_processing_def critical_error_def)

text \<open>
  Claim C7, as stated, fails: with the stop request made before the loop's first check,
  the first of two files does not end stopped by the worker; it is not started at all.
\<close>

theorem stop_before_start_counterexample:
  "file_list sample_app = [''/v/a.mkv'', ''/v/b.mp4'']
   \<and> stop_at_loop (stop_requested 0)
   \<and> fst (run_processing posix stop_requested sample_app) = [Log PROCESSING_DONE_TOKEN]
   \<and> fst (snd (run_processing posix stop_requested sample_app)) = []
   \<and> fst (snd (run_processing posix stop_requested sample_app)) \<noteq> [Worker_returned Stop_at_entry]"
  by (simp add: stop_requested_run) (simp add: sample_app_def stop_requested_def quiet_job_def)

theorem stop_before_start_witness:
  "stop_at_loop (stop_requested 0)
   \<and> fst (run_processing posix stop_requested sample_app) = [Log PROCESSING_DONE_TOKEN]
   \<and> fst (snd (run_processing posix stop_requested sample_app)) = []
   \<and> stop_at_entry (quiet_worker\<lparr>stop_at_entry := True\<rparr>)
   \<and> process_video posix (quiet_worker\<lparr>stop_at_entry := True\<rparr>) default_processor
        ''/v/a.mkv'' ''/v/processed/a_enhanced.mkv'' =
       ([], Stop_at_entry, default_processor\<lparr>stop_event := True\<rparr>)
   \<and> file_list sample_app = ''/v/a.mkv'' # [''/v/b.mp4'']
   \<and> \<not> stop_event (processor sample_app) \<and> \<not> stop_at_loop (stop_at_worker 0)
   \<and> mkdir_raises (stop_at_worker 0) = None \<and> exists_result (stop_at_worker 0) = Inr False
   \<and> stop_at_entry (worker (stop_at_worker 0))
   \<and> fst (run_processing posix stop_at_worker sample_app) =
       [Log ''Starting file 1 of 2: a.mkv'', Progress ''file_progress'' 0,
        Mkdir ''/v/processed'', Exists ''/v/processed/a_enhanced.mkv'',
        Progress ''overall_progress'' 1, Log PROCESSING_DONE_TOKEN]
   \<and> fst (snd (run_processing posix stop_at_worker sample_app)) = [Worker_returned Stop_at_entry]"
proof -
  have h1: "stop_at_loop (stop_requested 0)"
    by (simp add: stop_requested_def quiet_job_def)
  have h2: "stop_at_entry (quiet_worker\<lparr>stop_at_entry := True\<rparr>)"
    by simp
  have h3: "file_list sample_app = ''/v/a.mkv'' # [''/v/b.mp4'']"
    "\<not> stop_event (processor sample_app)" "\<not> stop_at_loop (stop_at_worker 0)"
    "mkdir_raises (stop_at_worker 0) = None" "exists_result (stop_at_worker 0) = Inr False"
    "stop_at_entry (worker (stop_at_worker 0))"
    by (simp_all add: sample_app_def stop_at_worker_def quiet_job_def)
  have cfg: "apply_before_folder (stop_at_worker 0) = None" "apply_before_suffix (stop_at_worker 0) = None"
    "length (file_list sample_app) = 2"
    "config_vars sample_app = default_config"
    by (simp_all add: sample_app_def stop_at_worker_def quiet_job_def)
  have a: "fst (run_processing posix stop_requested sample_app) = [Log PROCESSING_DONE_TOKEN]
      \<and> fst (snd (run_processing posix stop_requested sample_app)) = []"
    using stop_before_start [where app = sample_app and W = stop_requested and L = posix] h1
    by simp
  have b: "process_video posix (quiet_worker\<lparr>stop_at_entry := True\<rparr>) default_processor
        ''/v/a.mkv'' ''/v/processed/a_enhanced.mkv'' =
       ([], Stop_at_entry, default_processor\<lparr>stop_event := True\<rparr>)"
    using stop_before_start [where L = posix and p = default_processor
        and w = "quiet_worker\<lparr>stop_at_entry := True\<rparr>" and input_path = "''/v/a.mkv''"
        and output_path = "''/v/processed/a_enhanced.mkv''"] h2
    by (simp add: stop_processing_def)
  have c: "fst (run_processing posix stop_at_worker sample_app) =
       [Log ''Starting file 1 of 2: a.mkv'', Progress ''file_progress'' 0,
        Mkdir ''/v/processed'', Exists ''/v/processed/a_enhanced.mkv'',
        Progress ''overall_progress'' 1, Log PROCESSING_DONE_TOKEN]
      \<and> fst (snd (run_processing posix stop_at_worker sample_app)) = [Worker_returned Stop_at_entry]"
    using stop_before_start [where app = sample_app and W = stop_at_worker and L = posix
        and input_path = "''/v/a.mkv''" and rest = "[''/v/b.mp4'']"] h3
    by (simp add: cfg default_config_fields posix_def digit_char_def Let_def)
  from h1 h2 h3 a b c show ?thesis
    by simp
qed

end
